theory Spec2Isabelle
  imports Main
begin

section \<open>AsyncToggle (toggleable.ts, the second part of src/common/toggleable.unit.test.ts)\<close>

text \<open>
  The class keeps one private field, \<open>inFlight?: { ctrl: AbortController; to: ToggleDirection }\<close>.
  Controllers are heap objects compared by identity (\<open>this.inFlight?.ctrl === ctrl\<close>); the
  model numbers them in allocation order.  Beside the field, the state carries what the
  class acts on: the abort reason of every controller's signal, the allocator, and the
  chronological list of the effects the class has on its environment (aborting a signal,
  invoking the abstract \<open>turnOn\<close>/\<open>turnOff\<close>, writing a log line).
\<close>

datatype ToggleDirection = On | Off

datatype ToggleAbortedError = ToggleAbortedError ToggleDirection ToggleDirection

datatype LogLevel = Trace | Warn | Error

text \<open>The rejection value of a promise: an opaque error, identified by its message.\<close>

type_synonym err = string

text \<open>
  How an awaited promise settles, and how a call of an async function completes: each
  \<open>await\<close> of the source splits the function into the part before it and the part that
  runs once the promise has settled, which takes the settlement as an argument.
\<close>

datatype 'a settled = Resolved 'a | Rejected err

datatype 'a completion = Fulfilled 'a | Thrown err

datatype 'a promise = Pending | Settled "'a settled"

datatype effect =
    Abort nat ToggleAbortedError
  | Turn ToggleDirection nat
  | Log LogLevel string "err option"

record AsyncToggle =
  inFlight :: "(nat \<times> ToggleDirection) option"
  reason :: "nat \<Rightarrow> ToggleAbortedError option"
  nextCtrl :: nat
  effects :: "effect list"

definition new_toggle :: AsyncToggle where
  "new_toggle = \<lparr>inFlight = None, reason = (\<lambda>_. None), nextCtrl = 0, effects = []\<rparr>"

fun dir_str :: "ToggleDirection \<Rightarrow> string" where
  "dir_str On = ''on''"
| "dir_str Off = ''off''"

text \<open>\<open>ctrl.signal.aborted\<close>.\<close>

definition aborted :: "nat \<Rightarrow> AsyncToggle \<Rightarrow> bool" where
  "aborted c s = (reason s c \<noteq> None)"

text \<open>
  \<open>ctrl.abort(reason)\<close>: the platform sets the signal's reason once; aborting a signal that
  is already aborted changes nothing.
\<close>

definition abort :: "nat \<Rightarrow> ToggleAbortedError \<Rightarrow> AsyncToggle \<Rightarrow> AsyncToggle" where
  "abort c r s =
     (if aborted c s then s
      else s\<lparr>reason := (reason s)(c := Some r), effects := effects s @ [Abort c r]\<rparr>)"

definition log :: "LogLevel \<Rightarrow> string \<Rightarrow> err option \<Rightarrow> AsyncToggle \<Rightarrow> AsyncToggle" where
  "log l m e s = s\<lparr>effects := effects s @ [Log l m e]\<rparr>"

definition hasActiveControl :: "nat \<Rightarrow> AsyncToggle \<Rightarrow> bool" where
  "hasActiveControl ctrl s = (case inFlight s of None \<Rightarrow> False | Some (c, _) \<Rightarrow> c = ctrl)"

text \<open>
  \<open>toggle(to)\<close> is an async function with one \<open>await\<close>.  It is split there: \<open>toggle\<close> is the
  part that runs synchronously inside the call to \<open>on()\<close>/\<open>off()\<close>, up to and including the
  invocation of \<open>turnOn(ctrl.signal)\<close>/\<open>turnOff(ctrl.signal)\<close>; \<open>toggle_settled\<close> is the part
  that runs when the awaited promise settles (the rest of the \<open>try\<close>, the \<open>catch\<close> and the
  \<open>finally\<close>), with the closure variables \<open>ctrl\<close> and \<open>to\<close> as arguments.  The early \<open>return\<close>
  stands before the \<open>try\<close>, so the \<open>finally\<close> block does not run for it.  Should
  \<open>turnOn\<close>/\<open>turnOff\<close> throw instead of returning a promise, the same \<open>catch\<close> and \<open>finally\<close>
  run at once: that is \<open>toggle\<close> followed by \<open>toggle_settled\<close> with the rejection.
\<close>

datatype suspension = Returned | Awaiting nat

definition toggle :: "ToggleDirection \<Rightarrow> AsyncToggle \<Rightarrow> AsyncToggle \<times> suspension" where
  "toggle to s =
     (case inFlight s of
        Some (c, d) \<Rightarrow>
          if d = to then (s, Returned)
          else
            (let s1 = abort c (ToggleAbortedError d to) s;
                 ctrl = nextCtrl s1;
                 s2 = s1\<lparr>nextCtrl := Suc ctrl, inFlight := Some (ctrl, to)\<rparr>
             in (s2\<lparr>effects := effects s2 @ [Turn to ctrl]\<rparr>, Awaiting ctrl))
      | None \<Rightarrow>
          (let ctrl = nextCtrl s;
               s2 = s\<lparr>nextCtrl := Suc ctrl, inFlight := Some (ctrl, to)\<rparr>
           in (s2\<lparr>effects := effects s2 @ [Turn to ctrl]\<rparr>, Awaiting ctrl)))"

definition finally_block :: "nat \<Rightarrow> AsyncToggle \<Rightarrow> AsyncToggle" where
  "finally_block ctrl s = (if hasActiveControl ctrl s then s\<lparr>inFlight := None\<rparr> else s)"

definition toggle_settled ::
    "nat \<Rightarrow> ToggleDirection \<Rightarrow> unit settled \<Rightarrow> AsyncToggle \<Rightarrow> AsyncToggle \<times> unit completion" where
  "toggle_settled ctrl to r s =
     (case r of
        Resolved _ \<Rightarrow>
          if \<not> hasActiveControl ctrl s then
            (finally_block ctrl
               (log Trace (''Completed toggle to '' @ dir_str to @ '' but a new one superseded it.'')
                  None s),
             Fulfilled ())
          else
            (finally_block ctrl
               (log Trace (''Async toggle to '' @ dir_str to @ '' completed successfully.'') None s),
             Fulfilled ())
      | Rejected e \<Rightarrow>
          if aborted ctrl s then
            (finally_block ctrl (log Trace ''Async toggle aborted.'' (Some e) s), Fulfilled ())
          else
            (finally_block ctrl
               (log Error (''Async toggle to '' @ dir_str to @ '' failed unexpectedly.'') (Some e) s),
             Thrown e))"

text \<open>
  What can happen to a toggle: a call of \<open>on()\<close> or \<open>off()\<close>, or the promise of an earlier
  \<open>turnOn\<close>/\<open>turnOff\<close> settling.  \<open>run\<close> plays a list of such events from a fresh object.
\<close>

datatype event = Call ToggleDirection | Settle nat ToggleDirection "unit settled"

fun step :: "AsyncToggle \<Rightarrow> event \<Rightarrow> AsyncToggle" where
  "step s (Call to) = fst (toggle to s)"
| "step s (Settle ctrl to r) = fst (toggle_settled ctrl to r s)"

definition run :: "event list \<Rightarrow> AsyncToggle" where
  "run evs = foldl step new_toggle evs"

definition turns :: "ToggleDirection \<Rightarrow> AsyncToggle \<Rightarrow> nat" where
  "turns d s = length (filter (\<lambda>e. case e of Turn d' _ \<Rightarrow> d' = d | _ \<Rightarrow> False) (effects s))"

definition toggle_inv :: "AsyncToggle \<Rightarrow> bool" where
  "toggle_inv s =
     ((\<forall>c. reason s c \<noteq> None \<longrightarrow> c < nextCtrl s) \<and>
      (\<forall>c d. inFlight s = Some (c, d) \<longrightarrow> c < nextCtrl s \<and> reason s c = None))"

section \<open>LoopbackServer (loopback-server.ts, the second part of src/test/extension.e2e.test.ts)\<close>

text \<open>
  The class has the private fields \<open>listen?: Promise<number>\<close> and \<open>isDisposed\<close> and wraps an
  \<open>http.Server\<close>.  Of the wrapped server the model keeps its \<open>listening\<close> flag and counts the
  calls of its \<open>listen\<close> and \<open>close\<close> methods.  A promise is a heap object; the promises this
  object creates are numbered, \<open>listen\<close> holds the number, and \<open>promises\<close> gives each one's state.
  An async function that returns a promise completes with that promise's settlement, so the
  result of \<open>start()\<close> is given as the promise it returns (or the error it throws).
\<close>

datatype address = AddressInfo nat | PipeName string | Null

record LoopbackServer =
  listen :: "nat option"
  isDisposed :: bool
  listening :: bool
  listenCalls :: nat
  closeCalls :: nat
  promises :: "nat \<Rightarrow> nat promise"
  nextPromise :: nat

definition new_LoopbackServer :: LoopbackServer where
  "new_LoopbackServer =
     \<lparr>listen = None, isDisposed = False, listening = False, listenCalls = 0, closeCalls = 0,
      promises = (\<lambda>_. Pending), nextPromise = 0\<rparr>"

definition FAILED_TO_GET_PORT :: err where
  "FAILED_TO_GET_PORT = ''Failed to acquire server port''"

text \<open>
  \<open>dispose()\<close>.  \<open>http.Server.close\<close> stops the server from listening; the error its callback
  may report is only printed.
\<close>

definition dispose :: "LoopbackServer \<Rightarrow> LoopbackServer" where
  "dispose srv =
     (if isDisposed srv then srv
      else
        (let s1 = srv\<lparr>isDisposed := True\<rparr>
         in if \<not> listening s1 then s1
            else s1\<lparr>closeCalls := Suc (closeCalls s1), listening := False\<rparr>))"

text \<open>\<open>start()\<close>: the executor of the new promise calls \<open>this.server.listen\<close> at once.\<close>

definition start :: "LoopbackServer \<Rightarrow> LoopbackServer \<times> (err + nat)" where
  "start srv =
     (if isDisposed srv then (srv, Inl ''Local server has already been disposed'')
      else
        (case listen srv of
           Some p \<Rightarrow> (srv, Inr p)
         | None \<Rightarrow>
             (let p = nextPromise srv
              in (srv\<lparr>nextPromise := Suc p, promises := (promises srv)(p := Pending),
                       listenCalls := Suc (listenCalls srv), listen := Some p\<rparr>,
                  Inr p))))"

text \<open>
  The callback given to \<open>this.server.listen\<close>, run by the platform once the server is bound,
  with what \<open>this.server.address()\<close> returns then.
\<close>

definition listen_callback :: "address \<Rightarrow> LoopbackServer \<Rightarrow> LoopbackServer" where
  "listen_callback a srv =
     (case listen srv of
        None \<Rightarrow> srv
      | Some p \<Rightarrow>
          (if promises srv p \<noteq> Pending then srv\<lparr>listening := True\<rparr>
           else
             srv\<lparr>listening := True,
                 promises := (promises srv)
                   (p := (case a of AddressInfo port \<Rightarrow> Settled (Resolved port)
                          | _ \<Rightarrow> Settled (Rejected FAILED_TO_GET_PORT)))\<rparr>))"

section \<open>Platform functions on strings and URLs\<close>

text \<open>
  The handler of the loopback flow uses the platform's \<open>URL\<close>, \<open>URLSearchParams\<close>,
  \<open>encodeURIComponent\<close> and \<open>Number.prototype.toString\<close>.  They are modelled on byte strings.
  A query is parsed as \<open>application/x-www-form-urlencoded\<close>: split at \<open>&\<close>, empty pieces
  dropped, each piece split at its first \<open>=\<close>, \<open>+\<close> read as a space, \<open>%XX\<close> decoded.
\<close>

definition hexval :: "char \<Rightarrow> nat option" where
  "hexval c =
     (let n = (of_char c :: nat)
      in if 48 \<le> n \<and> n \<le> 57 then Some (n - 48)
         else if 65 \<le> n \<and> n \<le> 70 then Some (n - 55)
         else if 97 \<le> n \<and> n \<le> 102 then Some (n - 87)
         else None)"

fun percent_decode :: "string \<Rightarrow> string" where
  "percent_decode [] = []"
| "percent_decode [c] = [c]"
| "percent_decode [c, d] = [c, d]"
| "percent_decode (c # h1 # h2 # cs) =
     (if c = CHR ''%'' then
        (case (hexval h1, hexval h2) of
           (Some a, Some b) \<Rightarrow> char_of (16 * a + b) # percent_decode cs
         | _ \<Rightarrow> c # percent_decode (h1 # h2 # cs))
      else c # percent_decode (h1 # h2 # cs))"

fun split_on :: "char \<Rightarrow> string \<Rightarrow> string list" where
  "split_on sep [] = [[]]"
| "split_on sep (c # cs) =
     (if c = sep then [] # split_on sep cs
      else (case split_on sep cs of [] \<Rightarrow> [[c]] | w # ws \<Rightarrow> (c # w) # ws))"

definition form_decode :: "string \<Rightarrow> string" where
  "form_decode s = percent_decode (map (\<lambda>c. if c = CHR ''+'' then CHR '' '' else c) s)"

definition parse_pair :: "string \<Rightarrow> string \<times> string" where
  "parse_pair s =
     (form_decode (takeWhile (\<lambda>c. c \<noteq> CHR ''='') s),
      form_decode (drop 1 (dropWhile (\<lambda>c. c \<noteq> CHR ''='') s)))"

text \<open>\<open>new URLSearchParams(init)\<close> for a string: one leading \<open>?\<close> is dropped.\<close>

definition URLSearchParams :: "string \<Rightarrow> (string \<times> string) list" where
  "URLSearchParams init =
     (let q = (case init of [] \<Rightarrow> init | c # cs \<Rightarrow> if c = CHR ''?'' then cs else init)
      in map parse_pair (filter (\<lambda>p. p \<noteq> []) (split_on CHR ''&'' q)))"

text \<open>\<open>params.get(name)\<close>: the first value of that name, or \<open>null\<close>.\<close>

definition get :: "string \<Rightarrow> (string \<times> string) list \<Rightarrow> string option" where
  "get name params = map_of params name"

text \<open>
  \<open>new URL(input, base)\<close> gives an object, of which the handler reads \<open>pathname\<close> and
  \<open>searchParams\<close>, or throws a \<open>TypeError\<close>.  The code is modelled for whatever the platform's
  constructor does: \<open>handleRequest\<close> below takes the constructor as an argument, a function to
  \<open>URL_outcome\<close>.
\<close>

record URL =
  pathname :: string
  searchParams :: "(string \<times> string) list"

datatype URL_outcome = Parsed URL | InvalidURL | NotModelled

text \<open>
  To evaluate the code on concrete requests, \<open>new_URL\<close> gives the platform's result on the
  requests a browser sends to the loopback server and on two kinds of malformed request,
  and says \<open>NotModelled\<close> on everything else: it makes no statement there.

  The requests of a browser: the base is \<open>http://127.0.0.1\<close> with an optional port of at
  most 65535.  The input is in origin form: it starts with one \<open>/\<close>, and all its characters
  are letters, digits or among \<open>-._~!$&()*+,;=:@/?%\<close>, none of which the URL parser escapes
  or treats as a separator other than \<open>/\<close> and the first \<open>?\<close>.  The path is the part before the
  first \<open>?\<close>, with its dot segments resolved as the URL standard's path state does (\<open>%2e\<close>
  counts as a dot): a single-dot segment is dropped, a double-dot segment removes the
  segment before it, and either leaves an empty segment when it is the last one.  The
  parameters are those of the part from the first \<open>?\<close> on.

  The malformed requests, on which the constructor throws: a base \<open>http://\<close> followed by
  letters, digits, dots, hyphens and spaces, with a space that is not at its end (the base
  is parsed first, spaces at the end of it are stripped, and a space is forbidden in a
  host); and, with a loopback base, an input of two or more slashes followed by nothing or
  by a \<open>?\<close> (a scheme-relative reference with an empty host).
\<close>

definition digit :: "char \<Rightarrow> bool" where
  "digit c = (48 \<le> (of_char c :: nat) \<and> (of_char c :: nat) \<le> 57)"

definition port_number :: "string \<Rightarrow> nat" where
  "port_number ds = foldl (\<lambda>n d. 10 * n + ((of_char d :: nat) - 48)) 0 ds"

definition loopback_base :: "string \<Rightarrow> bool" where
  "loopback_base base =
     (take 16 base = ''http://127.0.0.1'' \<and>
      (case drop 16 base of
         [] \<Rightarrow> True
       | c # ds \<Rightarrow> c = CHR '':'' \<and> list_all digit ds \<and> port_number ds \<le> 65535))"

definition plain :: "char \<Rightarrow> bool" where
  "plain c =
     (let n = (of_char c :: nat)
      in (48 \<le> n \<and> n \<le> 57) \<or> (65 \<le> n \<and> n \<le> 90) \<or> (97 \<le> n \<and> n \<le> 122) \<or>
         c \<in> set ''-._~!$&()*+,;=:@/?%'')"

definition origin_form :: "string \<Rightarrow> bool" where
  "origin_form input =
     (list_all plain input \<and>
      (case input of
         [] \<Rightarrow> False
       | c # cs \<Rightarrow> c = CHR ''/'' \<and> (case cs of [] \<Rightarrow> True | d # _ \<Rightarrow> d \<noteq> CHR ''/'')))"

definition single_dot :: "string \<Rightarrow> bool" where
  "single_dot s = (s = ''.'' \<or> s = ''%2e'' \<or> s = ''%2E'')"

definition double_dot :: "string \<Rightarrow> bool" where
  "double_dot s =
     (s = ''..'' \<or> s = ''.%2e'' \<or> s = ''.%2E'' \<or> s = ''%2e.'' \<or> s = ''%2E.'' \<or>
      s = ''%2e%2e'' \<or> s = ''%2e%2E'' \<or> s = ''%2E%2e'' \<or> s = ''%2E%2E'')"

text \<open>
  The segments still to read, each but the last one ended by a \<open>/\<close>, and the path so far.
\<close>

fun path_state :: "string list \<Rightarrow> string list \<Rightarrow> string list" where
  "path_state [] path = path"
| "path_state (s # ss) path =
     (if ss = [] then
        (if double_dot s then butlast path @ [[]]
         else if single_dot s then path @ [[]]
         else path @ [s])
      else if double_dot s then path_state ss (butlast path)
      else if single_dot s then path_state ss path
      else path_state ss (path @ [s]))"

definition host_char :: "char \<Rightarrow> bool" where
  "host_char c =
     (let n = (of_char c :: nat)
      in (48 \<le> n \<and> n \<le> 57) \<or> (65 \<le> n \<and> n \<le> 90) \<or> (97 \<le> n \<and> n \<le> 122) \<or>
         c = CHR ''.'' \<or> c = CHR ''-'' \<or> c = CHR '' '')"

definition space_in_host :: "string \<Rightarrow> bool" where
  "space_in_host base =
     (take 7 base = ''http://'' \<and> list_all host_char (drop 7 base) \<and>
      list_ex (\<lambda>c. c = CHR '' '') (dropWhile (\<lambda>c. c = CHR '' '') (rev (drop 7 base))))"

definition empty_host :: "string \<Rightarrow> bool" where
  "empty_host input =
     (take 2 input = ''//'' \<and>
      (case dropWhile (\<lambda>c. c = CHR ''/'') input of [] \<Rightarrow> True | c # _ \<Rightarrow> c = CHR ''?''))"

definition new_URL :: "string \<Rightarrow> string \<Rightarrow> URL_outcome" where
  "new_URL input base =
     (if space_in_host base then InvalidURL
      else if loopback_base base \<and> empty_host input then InvalidURL
      else if loopback_base base \<and> origin_form input then
        Parsed
          \<lparr>pathname =
             concat (map (\<lambda>s. CHR ''/'' # s)
               (path_state (split_on CHR ''/'' (drop 1 (takeWhile (\<lambda>c. c \<noteq> CHR ''?'') input))) [])),
           searchParams = URLSearchParams (dropWhile (\<lambda>c. c \<noteq> CHR ''?'') input)\<rparr>
      else NotModelled)"

definition unreserved :: "char \<Rightarrow> bool" where
  "unreserved c =
     (let n = (of_char c :: nat)
      in (48 \<le> n \<and> n \<le> 57) \<or> (65 \<le> n \<and> n \<le> 90) \<or> (97 \<le> n \<and> n \<le> 122) \<or>
         c \<in> set (''-_.!~*()'' @ [CHR 0x27]))"

definition hexdigit :: "nat \<Rightarrow> char" where
  "hexdigit n = (if n < 10 then char_of (48 + n) else char_of (55 + n))"

definition encodeURIComponent :: "string \<Rightarrow> string" where
  "encodeURIComponent s =
     concat (map (\<lambda>c. if unreserved c then [c]
                       else [CHR ''%'', hexdigit (of_char c div 16), hexdigit (of_char c mod 16)]) s)"

function toString :: "nat \<Rightarrow> string" where
  "toString n =
     (if n < 10 then [char_of (48 + n)] else toString (n div 10) @ [char_of (48 + n mod 10)])"
  by pat_completeness auto
termination
  by (relation "measure id") auto

declare toString.simps [simp del]

text \<open>JavaScript's \<open>!s\<close> for a value that is a string or \<open>null\<close>.\<close>

definition falsy :: "string option \<Rightarrow> bool" where
  "falsy v = (case v of None \<Rightarrow> True | Some s \<Rightarrow> s = [])"

section \<open>The loopback flow (src/auth/flows/loopback.ts)\<close>

subsection \<open>Data\<close>

record OAuth2TriggerOptions =
  nonce :: string
  scopes :: "string list"
  pkceChallenge :: string
  cancel :: nat

record FlowResult =
  code :: string
  redirectUri :: string

text \<open>
  The options \<open>trigger\<close> sets in its call of \<open>generateAuthUrl\<close>, after the spread of
  \<open>DEFAULT_AUTH_URL_OPTS\<close> (a constant of \<open>./flows\<close>, which these four keys override).
\<close>

record GenerateAuthUrlOpts =
  redirect_uri :: string
  state :: string
  scope :: "string list"
  code_challenge :: string

record IncomingMessage =
  url :: "string option"
  http_method :: string
  host :: "string option"

record ServerResponse =
  headersSent :: bool
  statusCode :: "nat option"
  headers :: "(string \<times> string) list"
  body :: "string option"
  endCalls :: nat

definition new_ServerResponse :: ServerResponse where
  "new_ServerResponse =
     \<lparr>headersSent = False, statusCode = None, headers = [], body = None, endCalls = 0\<rparr>"

definition writeHead :: "nat \<Rightarrow> (string \<times> string) list \<Rightarrow> ServerResponse \<Rightarrow> ServerResponse" where
  "writeHead status hs res = res\<lparr>headersSent := True, statusCode := Some status, headers := hs\<rparr>"

definition end_response :: "string option \<Rightarrow> ServerResponse \<Rightarrow> ServerResponse" where
  "end_response b res = res\<lparr>headersSent := True, body := b, endCalls := Suc (endCalls res)\<rparr>"

text \<open>
  The listeners registered on a cancellation token: the code manager's, for one wait, and
  \<open>server.dispose.bind(server)\<close>, registered by \<open>trigger\<close>.
\<close>

datatype listener = CancelWait string nat | DisposeServer nat

text \<open>
  The state the flow works on.  Its own fields are the code manager (\<open>waiters\<close>, with the
  promises it handed out in \<open>codes\<close>) and \<open>activeServers\<close>, a set kept in insertion order.
  \<open>servers\<close> is the heap of \<open>LoopbackServer\<close> objects, numbered in allocation order.  The rest is
  the environment: the listeners of each cancellation token, the clock in milliseconds, the
  calls of \<open>vs.env.openExternal\<close> (each with the options its URL was generated from) and the
  log.
\<close>

record world =
  waiters :: "(string \<times> nat \<times> nat) list"
  codes :: "nat \<Rightarrow> string promise"
  nextCode :: nat
  activeServers :: "nat list"
  servers :: "nat \<Rightarrow> LoopbackServer"
  nextServer :: nat
  listeners :: "nat \<Rightarrow> listener list"
  now :: nat
  opened :: "GenerateAuthUrlOpts list"
  logs :: "(LogLevel \<times> string \<times> err option) list"

definition new_world :: world where
  "new_world =
     \<lparr>waiters = [], codes = (\<lambda>_. Pending), nextCode = 0, activeServers = [],
      servers = (\<lambda>_. new_LoopbackServer), nextServer = 0, listeners = (\<lambda>_. []), now = 0,
      opened = [], logs = []\<rparr>"

subsection \<open>CodeManager\<close>

text \<open>
  Modelled from the spec: the class \<open>CodeManager\<close> of \<open>src/auth/code-manager.ts\<close>, which the
  flow imports and which is not among the sources.  The spec (4.2) describes it as a keyed
  single-shot promise broker: \<open>waitForCode(nonce, cancelSignal)\<close> registers a waiter for the
  nonce and returns a promise that resolves when \<open>resolveCode(nonce, code)\<close> is called with a
  matching nonce, rejects if the cancel signal fires first, or rejects after a fixed
  timeout (60 seconds) with an error that matches "timeout"; the registration is removed on
  every terminal outcome; \<open>resolveCode\<close> for a nonce with no waiter is a no-op.  A waiter is
  (nonce, promise, deadline).  A second wait for a nonce that already has a waiter is left
  open by the spec: \<open>waitForCode\<close> is undefined (\<open>None\<close>) there.
\<close>

definition TIMEOUT_MS :: nat where
  "TIMEOUT_MS = 60000"

definition timeout_error :: err where
  "timeout_error = ''timeout''"


definition waitForCode :: "string \<Rightarrow> nat \<Rightarrow> world \<Rightarrow> (world \<times> nat) option" where
  "waitForCode n token w =
     (if n \<in> fst ` set (waiters w) then None
      else
        (let p = nextCode w
         in Some (w\<lparr>nextCode := Suc p, codes := (codes w)(p := Pending),
                     waiters := waiters w @ [(n, p, now w + TIMEOUT_MS)],
                     listeners := (listeners w)(token := listeners w token @ [CancelWait n p])\<rparr>,
                  p)))"

definition resolveCode :: "string \<Rightarrow> string \<Rightarrow> world \<Rightarrow> world" where
  "resolveCode n c w =
     (case map_of (waiters w) n of
        None \<Rightarrow> w
      | Some (p, _) \<Rightarrow>
          w\<lparr>codes := (codes w)(p := Settled (Resolved c)),
            waiters := filter (\<lambda>x. fst x \<noteq> n) (waiters w)\<rparr>)"

text \<open>Time passes: every wait whose deadline is reached is rejected and unregistered.\<close>

definition reject_all :: "err \<Rightarrow> nat list \<Rightarrow> (nat \<Rightarrow> string promise) \<Rightarrow> nat \<Rightarrow> string promise" where
  "reject_all e ps cs = (\<lambda>p. if p \<in> set ps then Settled (Rejected e) else cs p)"

definition advance :: "nat \<Rightarrow> world \<Rightarrow> world" where
  "advance ms w =
     (let t = now w + ms;
          due = filter (\<lambda>x. snd (snd x) \<le> t) (waiters w)
      in w\<lparr>now := t,
            codes := reject_all timeout_error (map (\<lambda>x. fst (snd x)) due) (codes w),
            waiters := filter (\<lambda>x. \<not> snd (snd x) \<le> t) (waiters w)\<rparr>)"



subsection \<open>LocalServerFlow.trigger\<close>

text \<open>
  \<open>trigger\<close> has three \<open>await\<close>s inside its \<open>try\<close>: \<open>server.start()\<close>, \<open>openExternal\<close> and the
  promise of the code.  \<open>trigger\<close> is the part that runs inside the call; \<open>trigger_started\<close>,
  \<open>trigger_opened\<close> and \<open>trigger_code\<close> are the parts that run when the respective promise has
  settled.  The closure variables (\<open>server\<close>, by its number, \<open>options\<close>, \<open>address\<close>) are
  arguments.  Every rejection lands in the one \<open>catch\<close> block.
\<close>

datatype trigger_stage =
    AwaitStart
  | AwaitOpenExternal string
  | AwaitCode string
  | Done "FlowResult completion"

definition catch_block :: "nat \<Rightarrow> err \<Rightarrow> world \<Rightarrow> world \<times> trigger_stage" where
  "catch_block sid e w =
     (w\<lparr>servers := (servers w)(sid := dispose (servers w sid)),
        activeServers := removeAll sid (activeServers w)\<rparr>,
      Done (Thrown e))"

text \<open>
  The result of \<open>trigger\<close>: the new state, the server, the promise of the code and what
  \<open>server.start()\<close> returned, which the function then awaits.
\<close>

definition trigger ::
    "OAuth2TriggerOptions \<Rightarrow> world \<Rightarrow> (world \<times> nat \<times> nat \<times> (err + nat)) option" where
  "trigger options w =
     (let sid = nextServer w;
          w1 = w\<lparr>nextServer := Suc sid,
                 servers := (servers w)(sid := new_LoopbackServer),
                 activeServers :=
                   (if sid \<in> set (activeServers w) then activeServers w
                    else activeServers w @ [sid])\<rparr>
      in case waitForCode (nonce options) (cancel options) w1 of
           None \<Rightarrow> None
         | Some (w2, p) \<Rightarrow>
             (let w3 = w2\<lparr>listeners := (listeners w2)
                            (cancel options := listeners w2 (cancel options) @ [DisposeServer sid])\<rparr>;
                  (srv, r) = start (servers w3 sid)
              in Some (w3\<lparr>servers := (servers w3)(sid := srv)\<rparr>, sid, p, r)))"

definition trigger_started ::
    "nat \<Rightarrow> OAuth2TriggerOptions \<Rightarrow> nat settled \<Rightarrow> world \<Rightarrow> world \<times> trigger_stage" where
  "trigger_started sid options r w =
     (case r of
        Rejected e \<Rightarrow> catch_block sid e w
      | Resolved port \<Rightarrow>
          (let address = ''http://127.0.0.1:'' @ toString port
           in (w\<lparr>opened := opened w @
                    [\<lparr>redirect_uri = address, state = ''nonce='' @ nonce options,
                      scope = scopes options, code_challenge = pkceChallenge options\<rparr>]\<rparr>,
               AwaitOpenExternal address)))"

text \<open>\<open>openExternal\<close> resolves to a boolean, whether the open was successful; the code awaits it
  and does not look at the value.\<close>

definition trigger_opened ::
    "nat \<Rightarrow> string \<Rightarrow> bool settled \<Rightarrow> world \<Rightarrow> world \<times> trigger_stage" where
  "trigger_opened sid address r w =
     (case r of
        Rejected e \<Rightarrow> catch_block sid e w
      | Resolved _ \<Rightarrow> (w, AwaitCode address))"

definition trigger_code ::
    "nat \<Rightarrow> string \<Rightarrow> string settled \<Rightarrow> world \<Rightarrow> world \<times> trigger_stage" where
  "trigger_code sid address r w =
     (case r of
        Rejected e \<Rightarrow> catch_block sid e w
      | Resolved c \<Rightarrow> (w, Done (Fulfilled \<lparr>code = c, redirectUri = address\<rparr>)))"

subsection \<open>One call of trigger, from start to completion\<close>












subsection \<open>Handler\<close>

text \<open>
  \<open>handleRequest\<close> either throws, or has written the whole response, or has started
  \<open>redirectSuccessfulAuth\<close> (which awaits \<open>asExternalUri\<close>), or has started \<open>sendFile\<close> on a path
  under the serve root.  Its first argument is the platform's \<open>new URL\<close>; where that argument
  makes no statement (\<open>NotModelled\<close>), neither does the model (\<open>Unmodelled\<close>).
\<close>

datatype handled = Threw err | Responded | Redirecting | SendingFile string string | Unmodelled

definition handleRequest ::
    "(string \<Rightarrow> string \<Rightarrow> URL_outcome) \<Rightarrow> string \<Rightarrow> IncomingMessage \<Rightarrow> ServerResponse \<Rightarrow> world \<Rightarrow>
       world \<times> ServerResponse \<times> handled" where
  "handleRequest newURL serveRoot req res w =
     (case url req of
        None \<Rightarrow> (w, res, Threw ''AssertionError: assert(req.url)'')
      | Some target \<Rightarrow>
          if target = [] then (w, res, Threw ''AssertionError: assert(req.url)'')
          else
            (case host req of
               None \<Rightarrow> (w, res, Threw ''AssertionError: assert(req.headers.host)'')
             | Some h \<Rightarrow>
                 if h = [] then (w, res, Threw ''AssertionError: assert(req.headers.host)'')
                 else
                   (case newURL target (''http://'' @ h) of
                      InvalidURL \<Rightarrow> (w, res, Threw ''TypeError: Invalid URL'')
                    | NotModelled \<Rightarrow> (w, res, Unmodelled)
                    | Parsed u \<Rightarrow>
                        if http_method req \<noteq> ''GET'' then
                          (w,
                           end_response (Some ''Method Not Allowed'')
                             (writeHead 405 [(''Allow'', ''GET'')] res),
                           Responded)
                        else if pathname u = ''/'' then
                          (case get ''state'' (searchParams u) of
                             None \<Rightarrow> (w, res, Threw ''Missing state in redirect URL'')
                           | Some st \<Rightarrow>
                               if st = [] then (w, res, Threw ''Missing state in redirect URL'')
                               else
                                 (case (get ''nonce'' (URLSearchParams st),
                                        get ''code'' (searchParams u)) of
                                    (Some n, Some c) \<Rightarrow>
                                      if n = [] \<or> c = [] then
                                        (w, res, Threw ''Missing nonce or code in redirect URI'')
                                      else (resolveCode n c w, res, Redirecting)
                                  | _ \<Rightarrow> (w, res, Threw ''Missing nonce or code in redirect URI'')))
                        else if pathname u = ''/favicon.ico'' then
                          (w, res, SendingFile serveRoot (drop 1 (pathname u)))
                        else
                          (w\<lparr>logs := logs w @ [(Warn, ''Received unhandled request'', None)]\<rparr>,
                           end_response (Some ''Not Found'') (writeHead 404 [] res), Responded))))"

text \<open>The nonce that the \<open>state\<close> parameter of a parsed URL carries, if any.\<close>

definition state_nonce :: "URL \<Rightarrow> string option" where
  "state_nonce u =
     (case get ''state'' (searchParams u) of
        None \<Rightarrow> None
      | Some st \<Rightarrow> get ''nonce'' (URLSearchParams st))"

text \<open>
  \<open>redirectSuccessfulAuth\<close> once \<open>asExternalUri\<close> has settled, with the URI as a string;
  \<open>ColabApiDomain\<close> is \<open>CONFIG.ColabApiDomain\<close>, a constant of \<open>colab-config\<close>.  A rejection
  reaches the \<open>catch\<close> that \<open>handleRequest\<close> attached, which logs it.
\<close>

definition redirectSuccessfulAuth ::
    "string \<Rightarrow> string settled \<Rightarrow> ServerResponse \<Rightarrow> world \<Rightarrow> world \<times> ServerResponse" where
  "redirectSuccessfulAuth ColabApiDomain r res w =
     (case r of
        Rejected e \<Rightarrow>
          (w\<lparr>logs := logs w @ [(Error, ''Unable to redirect the successful auth request'', Some e)]\<rparr>,
           res)
      | Resolved authSuccessUri \<Rightarrow>
          (let successState = encodeURIComponent authSuccessUri;
               redirectUri = ColabApiDomain @ ''/vscode/auth-success?state='' @ successState
           in if headersSent res then (w, res)
              else (w, end_response None (writeHead 302 [(''Location'', redirectUri)] res))))"

subsection \<open>A run of the flow\<close>

text \<open>
  The trigger options of the flow's unit test, the state after \<open>trigger\<close> has been called
  on a fresh flow, and the state once the server of that call is bound to \<open>port\<close> and the
  authorization URL has been handed to \<open>openExternal\<close>.
\<close>

definition test_options :: OAuth2TriggerOptions where
  "test_options = \<lparr>nonce = ''nonce'', scopes = [''foo''], pkceChallenge = ''1 + 1 = ?'', cancel = 0\<rparr>"

definition triggered :: world where
  "triggered = (case trigger test_options new_world of None \<Rightarrow> new_world | Some (w, _) \<Rightarrow> w)"

definition bound :: "nat \<Rightarrow> world" where
  "bound port =
     triggered\<lparr>servers := (servers triggered)
       (0 := listen_callback (AddressInfo port) (servers triggered 0))\<rparr>"

definition browser_opened :: "nat \<Rightarrow> world" where
  "browser_opened port = fst (trigger_started 0 test_options (Resolved port) (bound port))"

definition get_request :: "string \<Rightarrow> IncomingMessage" where
  "get_request target = \<lparr>url = Some target, http_method = ''GET'', host = Some ''127.0.0.1:1234''\<rparr>"

section \<open>Session persistence of the authentication provider\<close>

text \<open>
  Modelled from the spec: \<open>GoogleAuthProvider.getSessions\<close> and \<open>removeSession\<close> of
  \<open>src/auth/provider.ts\<close>, which is not among the sources (only its unit test is).  The spec
  (3, 4.5, 6): the sessions are persisted as a JSON array under one fixed key of the secret
  store; \<open>getSessions\<close> reads the persisted list, the empty list when nothing is stored, and
  filters by scope-subset if scopes are given; \<open>removeSession(id)\<close> filters the session out
  of the persisted list and performs no storage write if the id is not found.  The stored
  text is held as the list it encodes, and \<open>storeCalls\<close> counts the calls of the store's
  \<open>store\<close> operation.
\<close>

record AuthenticationSession =
  session_id :: string
  accessToken :: string
  account_id :: string
  account_label :: string
  session_scopes :: "string list"

record SecretStorage =
  secrets :: "string \<Rightarrow> AuthenticationSession list option"
  storeCalls :: nat

definition SESSIONS_KEY :: string where
  "SESSIONS_KEY = ''google.sessions''"

definition getSessions :: "string list option \<Rightarrow> SecretStorage \<Rightarrow> AuthenticationSession list" where
  "getSessions requested st =
     (let persisted = (case secrets st SESSIONS_KEY of None \<Rightarrow> [] | Some l \<Rightarrow> l)
      in case requested of
           None \<Rightarrow> persisted
         | Some sc \<Rightarrow> filter (\<lambda>s. set sc \<subseteq> set (session_scopes s)) persisted)"

definition removeSession :: "string \<Rightarrow> SecretStorage \<Rightarrow> SecretStorage" where
  "removeSession i st =
     (let sessions = getSessions None st;
          remaining = filter (\<lambda>s. session_id s \<noteq> i) sessions
      in if length remaining = length sessions then st
         else st\<lparr>secrets := (secrets st)(SESSIONS_KEY := Some remaining),
                 storeCalls := Suc (storeCalls st)\<rparr>)"

definition stored_sessions :: "AuthenticationSession list \<Rightarrow> SecretStorage" where
  "stored_sessions l = \<lparr>secrets = (\<lambda>_. None)(SESSIONS_KEY := Some l), storeCalls = 0\<rparr>"

definition DEFAULT_SESSION :: AuthenticationSession where
  "DEFAULT_SESSION =
     \<lparr>session_id = ''1'', accessToken = ''123'', account_id = ''foo@example.com'',
      account_label = ''Foo Bar'', session_scopes = [''email'', ''profile'']\<rparr>"

section \<open>The proxied-redirect flow\<close>

text \<open>
  Modelled from the spec: \<open>ProxiedRedirectFlow\<close> of \<open>src/auth/flows/proxied.ts\<close> and the
  \<open>ExtensionUriHandler\<close> it listens on, which are not among the sources (only the flow's unit
  test is).  The spec (4.1, 6): the flow listens to the host's URI invocations, which carry
  \<open>nonce\<close> and \<open>code\<close> as query parameters; it validates that the nonce is there and that a
  code is present and non-empty, and resolves the wait of that nonce; an invocation missing
  either is silently ignored; the wait is bounded by the same 60-second timeout and by
  cancellation.  The pending waits are those of the code manager above.  The result is the
  error thrown (\<open>Inl\<close>) or the new state.
\<close>

definition handleUri :: "string \<Rightarrow> world \<Rightarrow> err + world" where
  "handleUri query w =
     (let params = URLSearchParams query
      in case (get ''nonce'' params, get ''code'' params) of
           (Some n, Some c) \<Rightarrow> if n = [] \<or> c = [] then Inr w else Inr (resolveCode n c w)
         | _ \<Rightarrow> Inr w)"

definition waiting :: world where
  "waiting = (case waitForCode ''nonce'' 0 new_world of None \<Rightarrow> new_world | Some (w, _) \<Rightarrow> w)"


section \<open>Properties of AsyncToggle\<close>

subsection \<open>An invariant of every reachable state\<close>

text \<open>
  Controllers are allocated in increasing order, only allocated controllers are ever
  aborted, and the controller recorded in \<open>inFlight\<close> has not been aborted: a controller is
  aborted only in the step that replaces it.
\<close>

lemma toggle_inv_new: "toggle_inv new_toggle"
  by (simp add: toggle_inv_def new_toggle_def)

lemma toggle_inv_toggle: "toggle_inv s \<Longrightarrow> toggle_inv (fst (toggle to s))"
  unfolding toggle_inv_def toggle_def abort_def aborted_def
  by (auto simp: Let_def less_Suc_eq split: option.splits prod.splits if_splits)

lemma toggle_inv_settled: "toggle_inv s \<Longrightarrow> toggle_inv (fst (toggle_settled c to r s))"
  unfolding toggle_inv_def toggle_settled_def finally_block_def log_def hasActiveControl_def
  by (auto split: settled.splits option.splits prod.splits if_splits)

lemma toggle_inv_step: "toggle_inv s \<Longrightarrow> toggle_inv (step s e)"
  by (cases e) (simp_all add: toggle_inv_toggle toggle_inv_settled)

lemma toggle_inv_foldl: "toggle_inv s \<Longrightarrow> toggle_inv (foldl step s evs)"
  by (induction evs arbitrary: s) (simp_all add: toggle_inv_step)

lemma toggle_inv_run: "toggle_inv (run evs)"
  by (simp add: run_def toggle_inv_foldl toggle_inv_new)

lemma turns_log: "turns d (log l m e s) = turns d s"
  by (simp add: turns_def log_def)

lemma turns_finally: "turns d (finally_block c s) = turns d s"
  by (simp add: turns_def finally_block_def)

lemma turns_settled: "turns d (fst (toggle_settled c to r s)) = turns d s"
  by (simp add: toggle_settled_def turns_log turns_finally split: settled.splits)

lemma effects_finally: "effects (finally_block c s) = effects s"
  by (simp add: finally_block_def)

subsection \<open>C1: a call in the direction already in flight\<close>

text \<open>
  Claim C1.  Let a call \<open>toggle to\<close> have started a transition (it invoked
  \<open>turnOn\<close>/\<open>turnOff\<close> once and is suspended at its \<open>await\<close> with controller \<open>c\<close>).  A second
  call in the same direction, made while that transition is in flight, returns at once and
  leaves the whole state as it is: no controller is aborted or allocated, the procedure is
  not invoked again, and nothing is recorded that could run later.  The same holds in
  any state in which a transition in that direction is in flight.  When the first
  transition's promise settles, whatever the outcome, no further invocation follows
  either: the procedure of that direction has run exactly once.
\<close>

theorem toggle_same_direction_noop:
  assumes "toggle to s0 = (s, Awaiting c)"
  shows "turns to s = Suc (turns to s0) \<and> inFlight s = Some (c, to) \<and>
         toggle to s = (s, Returned) \<and>
         (\<forall>s' c'. inFlight s' = Some (c', to) \<longrightarrow> toggle to s' = (s', Returned)) \<and>
         (\<forall>r d. turns d (fst (toggle_settled c to r s)) = turns d s)"
proof -
  from assms have "inFlight s = Some (c, to)"
    by (auto simp: toggle_def Let_def split: option.splits prod.splits if_splits)
  moreover from assms have "turns to s = Suc (turns to s0)"
    by (auto simp: toggle_def Let_def turns_def abort_def split: option.splits prod.splits if_splits)
  moreover have "\<forall>s' c'. inFlight s' = Some (c', to) \<longrightarrow> toggle to s' = (s', Returned)"
    by (simp add: toggle_def)
  ultimately show ?thesis by (simp add: turns_settled)
qed

theorem toggle_same_direction_noop_witness:
  "toggle On new_toggle = (run [Call On], Awaiting 0) \<and> turns On (run [Call On]) = 1 \<and>
   toggle On (run [Call On]) = (run [Call On], Returned) \<and>
   turns On (run [Call On, Call On, Settle 0 On (Resolved ())]) = 1"
proof -
  have h: "toggle On new_toggle = (run [Call On], Awaiting 0)"
    by (simp add: run_def toggle_def new_toggle_def Let_def)
  from toggle_same_direction_noop [OF h] show ?thesis
    using h by (simp add: run_def new_toggle_def turns_def)
qed

subsection \<open>C2: a call in the opposite direction\<close>

text \<open>
  Claim C2.  In every state the object can reach, if a transition to direction \<open>d\<close> is in
  flight with controller \<open>c\<close> and \<open>toggle to\<close> is called with \<open>to \<noteq> d\<close>, then within that one
  synchronous call, and in this order, the signal of \<open>c\<close> is aborted with the reason
  \<open>ToggleAbortedError d to\<close> ("Toggling from d superseded by toggle to to") and the procedure
  of the new direction is invoked with the signal of a fresh controller that is not aborted
  and that becomes the in-flight record.  The call suspends at its own \<open>await\<close>; the
  continuation of the superseded transition has not run and is not waited for.
\<close>

theorem toggle_opposite_direction_supersedes:
  assumes "inFlight (run evs) = Some (c, d)" and "d \<noteq> to"
  shows "\<exists>s'. toggle to (run evs) = (s', Awaiting (nextCtrl (run evs))) \<and>
           effects s' =
             effects (run evs) @ [Abort c (ToggleAbortedError d to), Turn to (nextCtrl (run evs))] \<and>
           aborted c s' \<and> reason s' c = Some (ToggleAbortedError d to) \<and>
           \<not> aborted (nextCtrl (run evs)) s' \<and>
           inFlight s' = Some (nextCtrl (run evs), to)"
proof -
  have inv: "toggle_inv (run evs)" by (rule toggle_inv_run)
  with assms(1) have fresh: "reason (run evs) c = None" and lt: "c < nextCtrl (run evs)"
    by (simp_all add: toggle_inv_def)
  from inv have "reason (run evs) (nextCtrl (run evs)) = None"
    unfolding toggle_inv_def by (metis less_irrefl)
  with assms fresh lt show ?thesis
    by (simp add: toggle_def abort_def aborted_def Let_def)
qed

theorem toggle_opposite_direction_supersedes_witness:
  "inFlight (run [Call On]) = Some (0, On) \<and> On \<noteq> Off \<and>
   (\<exists>s'. toggle Off (run [Call On]) = (s', Awaiting 1) \<and>
      effects s' = [Turn On 0, Abort 0 (ToggleAbortedError On Off), Turn Off 1] \<and>
      aborted 0 s' \<and> \<not> aborted 1 s' \<and> inFlight s' = Some (1, Off))"
proof -
  have h: "inFlight (run [Call On]) = Some (0, On)"
    by (simp add: run_def toggle_def new_toggle_def Let_def)
  have n: "nextCtrl (run [Call On]) = 1" and e: "effects (run [Call On]) = [Turn On 0]"
    by (simp_all add: run_def toggle_def new_toggle_def Let_def)
  from toggle_opposite_direction_supersedes [OF h, of Off] show ?thesis
    using h n e by auto
qed

subsection \<open>C3: a transition whose promise rejects\<close>

text \<open>
  Claim C3.  When the promise of \<open>turnOn\<close>/\<open>turnOff\<close> rejects with \<open>e\<close>: if the transition's
  signal has been aborted, the call to \<open>toggle\<close> completes normally and the only thing
  written is the trace-level line "Async toggle aborted."; if the signal has not been
  aborted, the error-level line "Async toggle to ... failed unexpectedly." is written and \<open>e\<close>
  is thrown out of \<open>toggle\<close>.  In every state the object can reach, a transition whose
  signal has been aborted is one that was superseded: it no longer has active control.
\<close>

theorem toggle_rejection_handling:
  "(aborted ctrl s \<longrightarrow>
      snd (toggle_settled ctrl to (Rejected e) s) = Fulfilled () \<and>
      effects (fst (toggle_settled ctrl to (Rejected e) s)) =
        effects s @ [Log Trace ''Async toggle aborted.'' (Some e)]) \<and>
   (\<not> aborted ctrl s \<longrightarrow>
      snd (toggle_settled ctrl to (Rejected e) s) = Thrown e \<and>
      effects (fst (toggle_settled ctrl to (Rejected e) s)) =
        effects s @
          [Log Error (''Async toggle to '' @ dir_str to @ '' failed unexpectedly.'') (Some e)]) \<and>
   (aborted ctrl (run evs) \<longrightarrow> \<not> hasActiveControl ctrl (run evs))"
proof -
  have "toggle_inv (run evs)" by (rule toggle_inv_run)
  then have "aborted ctrl (run evs) \<longrightarrow> \<not> hasActiveControl ctrl (run evs)"
    by (auto simp: toggle_inv_def aborted_def hasActiveControl_def split: option.splits)
  then show ?thesis
    by (simp add: toggle_settled_def effects_finally log_def)
qed

theorem toggle_rejection_handling_witness:
  "aborted 0 (run [Call On, Call Off]) \<and> \<not> hasActiveControl 0 (run [Call On, Call Off]) \<and>
   toggle_settled 0 On (Rejected ''boom'') (run [Call On, Call Off]) =
     (run [Call On, Call Off, Settle 0 On (Rejected ''boom'')], Fulfilled ()) \<and>
   effects (run [Call On, Call Off, Settle 0 On (Rejected ''boom'')]) =
     effects (run [Call On, Call Off]) @ [Log Trace ''Async toggle aborted.'' (Some ''boom'')] \<and>
   \<not> aborted 0 (run [Call On]) \<and>
   snd (toggle_settled 0 On (Rejected ''boom'') (run [Call On])) = Thrown ''boom'' \<and>
   effects (fst (toggle_settled 0 On (Rejected ''boom'') (run [Call On]))) =
     [Turn On 0, Log Error ''Async toggle to on failed unexpectedly.'' (Some ''boom'')]"
proof -
  have a: "aborted 0 (run [Call On, Call Off])"
    by (simp add: run_def toggle_def new_toggle_def Let_def abort_def aborted_def)
  have b: "\<not> aborted 0 (run [Call On])"
    by (simp add: run_def toggle_def new_toggle_def Let_def abort_def aborted_def)
  have c: "effects (run [Call On]) = [Turn On 0]"
    by (simp add: run_def toggle_def new_toggle_def Let_def)
  have d: "run [Call On, Call Off, Settle 0 On (Rejected ''boom'')] =
           fst (toggle_settled 0 On (Rejected ''boom'') (run [Call On, Call Off]))"
    by (simp add: run_def)
  from toggle_rejection_handling [of 0 "run [Call On, Call Off]" On "''boom''" "[Call On, Call Off]"]
       toggle_rejection_handling [of 0 "run [Call On]" On "''boom''" "[]"]
  show ?thesis using a b c d by (simp add: prod_eq_iff)
qed

subsection \<open>C10: the in-flight record after a transition ends\<close>

text \<open>
  Claim C10.  When the promise of a transition settles, with any outcome, and the
  transition still has active control, the \<open>finally\<close> block clears \<open>inFlight\<close>; a following
  call of \<open>toggle\<close> in either direction then allocates a fresh controller and invokes
  \<open>turnOn\<close>/\<open>turnOff\<close> again.  When the transition no longer has active control (it was
  superseded), its completion leaves \<open>inFlight\<close> exactly as it finds it.
\<close>

theorem toggle_never_wedges:
  "(hasActiveControl ctrl s \<longrightarrow>
      inFlight (fst (toggle_settled ctrl to r s)) = None \<and>
      (\<forall>d. \<exists>s'. toggle d (fst (toggle_settled ctrl to r s)) =
                 (s', Awaiting (nextCtrl s)) \<and>
              inFlight s' = Some (nextCtrl s, d) \<and>
              effects s' = effects (fst (toggle_settled ctrl to r s)) @ [Turn d (nextCtrl s)])) \<and>
   (\<not> hasActiveControl ctrl s \<longrightarrow>
      inFlight (fst (toggle_settled ctrl to r s)) = inFlight s)"
proof -
  have n: "nextCtrl (fst (toggle_settled ctrl to r s)) = nextCtrl s"
    by (simp add: toggle_settled_def finally_block_def log_def split: settled.splits)
  have a: "hasActiveControl ctrl s \<Longrightarrow> inFlight (fst (toggle_settled ctrl to r s)) = None"
    by (simp add: toggle_settled_def finally_block_def log_def hasActiveControl_def
             split: settled.splits)
  have b: "\<not> hasActiveControl ctrl s \<Longrightarrow> inFlight (fst (toggle_settled ctrl to r s)) = inFlight s"
    by (simp add: toggle_settled_def finally_block_def log_def hasActiveControl_def
             split: settled.splits)
  show ?thesis using a b n by (simp add: toggle_def Let_def)
qed

theorem toggle_never_wedges_witness:
  "hasActiveControl 0 (run [Call On]) \<and>
   inFlight (run [Call On, Settle 0 On (Rejected ''boom'')]) = None \<and>
   effects (run [Call On, Settle 0 On (Rejected ''boom''), Call Off]) =
     effects (run [Call On, Settle 0 On (Rejected ''boom'')]) @ [Turn Off 1] \<and>
   \<not> hasActiveControl 0 (run [Call On, Call Off]) \<and>
   inFlight (run [Call On, Call Off, Settle 0 On (Rejected ''boom'')]) = Some (1, Off)"
proof -
  have a: "hasActiveControl 0 (run [Call On])"
    by (simp add: run_def toggle_def new_toggle_def Let_def hasActiveControl_def)
  have b: "\<not> hasActiveControl 0 (run [Call On, Call Off])"
    by (simp add: run_def toggle_def new_toggle_def Let_def hasActiveControl_def abort_def)
  have c: "inFlight (run [Call On, Call Off]) = Some (1, Off)"
    by (simp add: run_def toggle_def new_toggle_def Let_def abort_def aborted_def)
  have n: "nextCtrl (run [Call On]) = 1"
    by (simp add: run_def toggle_def new_toggle_def Let_def)
  have r1: "run [Call On, Settle 0 On (Rejected ''boom'')] =
            fst (toggle_settled 0 On (Rejected ''boom'') (run [Call On]))"
    and r2: "run [Call On, Settle 0 On (Rejected ''boom''), Call Off] =
            fst (toggle Off (fst (toggle_settled 0 On (Rejected ''boom'') (run [Call On]))))"
    and r3: "run [Call On, Call Off, Settle 0 On (Rejected ''boom'')] =
            fst (toggle_settled 0 On (Rejected ''boom'') (run [Call On, Call Off]))"
    by (simp_all add: run_def)
  from toggle_never_wedges [of 0 "run [Call On]" On "Rejected ''boom''"] a n
  obtain s' where
    i: "inFlight (fst (toggle_settled 0 On (Rejected ''boom'') (run [Call On]))) = None" and
    t: "toggle Off (fst (toggle_settled 0 On (Rejected ''boom'') (run [Call On]))) = (s', Awaiting 1)" and
    e: "effects s' =
          effects (fst (toggle_settled 0 On (Rejected ''boom'') (run [Call On]))) @ [Turn Off 1]"
    by auto
  from toggle_never_wedges [of 0 "run [Call On, Call Off]" On "Rejected ''boom''"] b c
  have k: "inFlight (fst (toggle_settled 0 On (Rejected ''boom'') (run [Call On, Call Off]))) =
             Some (1, Off)"
    by simp
  show ?thesis using a b i t e k by (simp add: r1 r2 r3)
qed

section \<open>Properties of LoopbackServer\<close>

subsection \<open>C8: calling start twice\<close>

text \<open>
  Claim C8.  If a call of \<open>start()\<close> returned the listen promise \<open>p\<close>, a second call made
  while nothing else has happened to the object returns the same promise \<open>p\<close> and changes
  nothing: \<open>this.server.listen\<close> is not invoked again.  When the first call was the one that
  created the promise, \<open>listen\<close> has been invoked once more than before, the promise is
  pending, and when the server is bound with an address of \<open>port\<close> the one promise, and so
  both calls, resolve to \<open>port\<close>.
\<close>

theorem start_idempotent:
  assumes "start srv = (s1, Inr p)"
  shows "start s1 = (s1, Inr p) \<and> listen s1 = Some p \<and>
         listenCalls s1 = (if listen srv = None then Suc (listenCalls srv) else listenCalls srv) \<and>
         (listen srv = None \<longrightarrow> promises s1 p = Pending \<and>
            (\<forall>port. promises (listen_callback (AddressInfo port) s1) p = Settled (Resolved port)))"
  using assms
  by (auto simp: start_def Let_def listen_callback_def split: if_splits option.splits)

theorem start_idempotent_witness:
  "start new_LoopbackServer = (fst (start new_LoopbackServer), Inr 0) \<and>
   start (fst (start new_LoopbackServer)) = (fst (start new_LoopbackServer), Inr 0) \<and>
   listenCalls (fst (start (fst (start new_LoopbackServer)))) = 1 \<and>
   promises (listen_callback (AddressInfo 12345) (fst (start (fst (start new_LoopbackServer))))) 0
     = Settled (Resolved 12345)"
proof -
  have h: "start new_LoopbackServer = (fst (start new_LoopbackServer), Inr 0)"
    by (simp add: start_def new_LoopbackServer_def Let_def)
  have l: "listen new_LoopbackServer = None" "listenCalls new_LoopbackServer = 0"
    by (simp_all add: new_LoopbackServer_def)
  from start_idempotent [OF h] show ?thesis
    using h l by simp
qed

section \<open>Properties of the session store\<close>

lemma getSessions_subset: "set (getSessions (Some sc) st) \<subseteq> set (getSessions None st)"
  by (auto simp: getSessions_def)

lemma removeSession_absent:
  "i \<notin> session_id ` set (getSessions None st) \<Longrightarrow> removeSession i st = st"
proof -
  assume a: "i \<notin> session_id ` set (getSessions None st)"
  then have "filter (\<lambda>s. session_id s \<noteq> i) (getSessions None st) = getSessions None st"
    by (auto simp: filter_id_conv)
  then show ?thesis by (simp add: removeSession_def Let_def)
qed

lemma getSessions_removeSession:
  "getSessions None (removeSession i st) = filter (\<lambda>s. session_id s \<noteq> i) (getSessions None st)"
proof (cases "length (filter (\<lambda>s. session_id s \<noteq> i) (getSessions None st)) = length (getSessions None st)")
  case True
  then have "filter (\<lambda>s. session_id s \<noteq> i) (getSessions None st) = getSessions None st"
    by (metis filter_True length_filter_less less_irrefl)
  with True show ?thesis by (simp add: removeSession_def Let_def)
next
  case False
  then show ?thesis by (simp add: removeSession_def Let_def getSessions_def)
qed

subsection \<open>C7: removing a session\<close>

text \<open>
  Claim C7.  When no persisted session has the id, \<open>removeSession\<close> returns the store as it
  was: the store operation is not invoked and the persisted value is unchanged.  When a
  persisted session has the id, one write is made and afterwards \<open>getSessions\<close>, with or
  without requested scopes, returns no session with that id.
\<close>

theorem removeSession_frame:
  "(i \<notin> session_id ` set (getSessions None st) \<longrightarrow>
      removeSession i st = st \<and> storeCalls (removeSession i st) = storeCalls st \<and>
      secrets (removeSession i st) = secrets st) \<and>
   (i \<in> session_id ` set (getSessions None st) \<longrightarrow>
      storeCalls (removeSession i st) = Suc (storeCalls st) \<and>
      (\<forall>requested. i \<notin> session_id ` set (getSessions requested (removeSession i st))))"
proof (intro conjI impI)
  assume a: "i \<notin> session_id ` set (getSessions None st)"
  then show "removeSession i st = st" by (rule removeSession_absent)
  then show "storeCalls (removeSession i st) = storeCalls st"
    and "secrets (removeSession i st) = secrets st" by simp_all
next
  assume a: "i \<in> session_id ` set (getSessions None st)"
  then have "length (filter (\<lambda>s. session_id s \<noteq> i) (getSessions None st)) \<noteq> length (getSessions None st)"
    by (metis (mono_tags, lifting) filter_id_conv imageE length_filter_less less_irrefl)
  then show "storeCalls (removeSession i st) = Suc (storeCalls st)"
    by (simp add: removeSession_def Let_def)
  have n: "i \<notin> session_id ` set (getSessions None (removeSession i st))"
    by (auto simp: getSessions_removeSession)
  show "\<forall>requested. i \<notin> session_id ` set (getSessions requested (removeSession i st))"
  proof
    fix requested
    show "i \<notin> session_id ` set (getSessions requested (removeSession i st))"
      using n getSessions_subset by (cases requested) auto
  qed
qed

theorem removeSession_frame_witness:
  "''does-not-exist'' \<notin> session_id ` set (getSessions None (stored_sessions [DEFAULT_SESSION])) \<and>
   removeSession ''does-not-exist'' (stored_sessions [DEFAULT_SESSION]) = stored_sessions [DEFAULT_SESSION] \<and>
   ''1'' \<in> session_id ` set (getSessions None (stored_sessions [DEFAULT_SESSION])) \<and>
   storeCalls (removeSession ''1'' (stored_sessions [DEFAULT_SESSION])) = 1 \<and>
   ''1'' \<notin> session_id ` set (getSessions None (removeSession ''1'' (stored_sessions [DEFAULT_SESSION])))"
proof -
  have g: "getSessions None (stored_sessions [DEFAULT_SESSION]) = [DEFAULT_SESSION]"
    by (simp add: getSessions_def stored_sessions_def)
  have a: "''does-not-exist'' \<notin> session_id ` set (getSessions None (stored_sessions [DEFAULT_SESSION]))"
    unfolding g by (simp add: DEFAULT_SESSION_def)
  have b: "''1'' \<in> session_id ` set (getSessions None (stored_sessions [DEFAULT_SESSION]))"
    unfolding g by (simp add: DEFAULT_SESSION_def)
  have c: "storeCalls (stored_sessions [DEFAULT_SESSION]) = 0"
    by (simp add: stored_sessions_def)
  from removeSession_frame [of "''does-not-exist''" "stored_sessions [DEFAULT_SESSION]"]
       removeSession_frame [of "''1''" "stored_sessions [DEFAULT_SESSION]"]
  show ?thesis using a b c by simp
qed

section \<open>Properties of the flows\<close>

subsection \<open>The run of the unit test, evaluated\<close>

lemma trigger_test: "trigger test_options new_world = Some (triggered, 0, 0, Inr 0)"
  by (simp add: triggered_def trigger_def test_options_def new_world_def waitForCode_def Let_def
        start_def new_LoopbackServer_def)

lemma triggered_fields:
  "waiters triggered = [(''nonce'', 0, 60000)]"
  "codes triggered 0 = Pending"
  "activeServers triggered = [0]"
  "listeners triggered 0 = [CancelWait ''nonce'' 0, DisposeServer 0]"
  "isDisposed (servers triggered 0) = False"
  "listen (servers triggered 0) = Some 0"
  "listenCalls (servers triggered 0) = 1"
  "promises (servers triggered 0) 0 = Pending"
  "now triggered = 0"
  "opened triggered = []"
  by (simp_all add: triggered_def trigger_def test_options_def new_world_def waitForCode_def Let_def
        start_def new_LoopbackServer_def TIMEOUT_MS_def)

lemmas new_URL_eval =
  new_URL_def loopback_base_def origin_form_def plain_def digit_def port_number_def
  single_dot_def double_dot_def space_in_host_def empty_host_def host_char_def

lemma parse_query:
  "URLSearchParams ''?state=nonce%3Dnonce&code=42'' = [(''state'', ''nonce=nonce''), (''code'', ''42'')]"
  "URLSearchParams ''?state=nonce%3Dnonce'' = [(''state'', ''nonce=nonce'')]"
  "URLSearchParams ''?code=42'' = [(''code'', ''42'')]"
  "URLSearchParams [] = []"
  "get ''nonce'' (URLSearchParams ''nonce=nonce'') = Some ''nonce''"
  by code_simp+

lemma parse_callback:
  "new_URL ''/?state=nonce%3Dnonce&code=42'' ''http://127.0.0.1:1234'' =
     Parsed \<lparr>pathname = ''/'', searchParams = [(''state'', ''nonce=nonce''), (''code'', ''42'')]\<rparr>"
  by (simp add: new_URL_eval parse_query)

lemma parse_bare:
  "new_URL ''/'' ''http://127.0.0.1:1234'' = Parsed \<lparr>pathname = ''/'', searchParams = []\<rparr>"
  by (simp add: new_URL_eval parse_query)

lemma parse_no_code:
  "new_URL ''/?state=nonce%3Dnonce'' ''http://127.0.0.1:1234'' =
     Parsed \<lparr>pathname = ''/'', searchParams = [(''state'', ''nonce=nonce'')]\<rparr>"
  by (simp add: new_URL_eval parse_query)

lemma get_values:
  "get ''state'' [(''state'', ''nonce=nonce''), (''code'', ''42'')] = Some ''nonce=nonce''"
  "get ''code'' [(''state'', ''nonce=nonce''), (''code'', ''42'')] = Some ''42''"
  "get ''state'' [] = None"
  by (simp_all add: get_def)

text \<open>
  Dot segments are resolved before the handler compares the path.  An input of two slashes
  and a Host header with a space inside make the constructor throw.  \<open>new_URL\<close> makes no
  statement on a base with another host.
\<close>

lemma parse_dot_segments:
  "new_URL ''/./?code=42'' ''http://127.0.0.1:1234'' =
     Parsed \<lparr>pathname = ''/'', searchParams = [(''code'', ''42'')]\<rparr>"
  "new_URL ''/%2e'' ''http://127.0.0.1:1234'' = Parsed \<lparr>pathname = ''/'', searchParams = []\<rparr>"
  "new_URL ''/a/..'' ''http://127.0.0.1:1234'' = Parsed \<lparr>pathname = ''/'', searchParams = []\<rparr>"
  "new_URL ''/a/../favicon.ico'' ''http://127.0.0.1:1234'' =
     Parsed \<lparr>pathname = ''/favicon.ico'', searchParams = []\<rparr>"
  "new_URL ''/a/b/'' ''http://127.0.0.1'' = Parsed \<lparr>pathname = ''/a/b/'', searchParams = []\<rparr>"
  "new_URL ''//'' ''http://127.0.0.1:1234'' = InvalidURL"
  "new_URL ''/'' ''http://exa mple'' = InvalidURL"
  "new_URL ''/'' ''http://localhost:1234'' = NotModelled"
  by (simp_all add: new_URL_eval parse_query)

lemma bound_fields:
  "waiters (bound port) = waiters triggered"
  "codes (bound port) = codes triggered"
  "activeServers (bound port) = activeServers triggered"
  "opened (bound port) = opened triggered"
  "promises (servers (bound port) 0) 0 = Settled (Resolved port)"
  "listening (servers (bound port) 0)"
  "isDisposed (servers (bound port) 0) = False"
  by (simp_all add: bound_def listen_callback_def triggered_fields)

lemma browser_opened_fields:
  "waiters (browser_opened port) = waiters triggered"
  "codes (browser_opened port) = codes triggered"
  "activeServers (browser_opened port) = activeServers triggered"
  "servers (browser_opened port) = servers (bound port)"
  by (simp_all add: browser_opened_def trigger_started_def Let_def bound_fields)

lemma resolveCode_test:
  "codes (resolveCode ''nonce'' ''42'' (browser_opened port)) 0 = Settled (Resolved ''42'')"
  "waiters (resolveCode ''nonce'' ''42'' (browser_opened port)) = []"
  by (simp_all add: resolveCode_def browser_opened_fields triggered_fields)

lemma loopback_flow_test_values:
  "toString 1234 = ''1234''"
  "encodeURIComponent ''vscode://google.colab/auth-success?windowId=1'' =
     ''vscode%3A%2F%2Fgoogle.colab%2Fauth-success%3FwindowId%3D1''"
  by code_simp+

lemma waiting_fields:
  "waiters waiting = [(''nonce'', 0, 60000)]"
  "codes waiting 0 = Pending"
  "now waiting = 0"
  by (simp_all add: waiting_def waitForCode_def new_world_def Let_def TIMEOUT_MS_def)

lemma parse_proxied:
  "get ''nonce'' (URLSearchParams ''windowId=1'') = None"
  "get ''nonce'' (URLSearchParams ''nonce=nonce&windowId=1&code='') = Some ''nonce''"
  "get ''code'' (URLSearchParams ''nonce=nonce&windowId=1&code='') = Some []"
  "get ''nonce'' (URLSearchParams ''nonce=nonce&windowId=1&code=42'') = Some ''nonce''"
  "get ''code'' (URLSearchParams ''nonce=nonce&windowId=1&code=42'') = Some ''42''"
  by code_simp+

lemma advance_rejects:
  assumes "(n, p, d) \<in> set (waiters w)" and "d \<le> now w + ms"
  shows "codes (advance ms w) p = Settled (Rejected timeout_error)"
proof -
  from assms have "p \<in> set (map (\<lambda>x. fst (snd x)) (filter (\<lambda>x. snd (snd x) \<le> now w + ms) (waiters w)))"
    by force
  then show ?thesis by (simp add: advance_def Let_def reject_all_def)
qed

lemma resolveCode_resolves:
  "map_of (waiters w) n = Some (p, d) \<Longrightarrow> codes (resolveCode n c w) p = Settled (Resolved c)"
  by (simp add: resolveCode_def)

subsection \<open>Cancellation and the catch block\<close>




























subsection \<open>Invariants of a call of trigger\<close>




















subsection \<open>C4: when trigger rejects\<close>






subsection \<open>C5: a callback request with a missing parameter\<close>

text \<open>
  Before it looks at the method or the path, \<open>handleRequest\<close> builds the URL of the request
  from its target and its Host header.  Where the platform's constructor throws, so does
  \<open>handleRequest\<close>, with that \<open>TypeError\<close>, whatever the parameters of the request are.
\<close>

lemma handleRequest_invalid_url:
  assumes "url req = Some target" and "target \<noteq> []" and "host req = Some h" and "h \<noteq> []"
    and "newURL target (''http://'' @ h) = InvalidURL"
  shows "handleRequest newURL serveRoot req res w = (w, res, Threw ''TypeError: Invalid URL'')"
  using assms by (simp add: handleRequest_def)

lemma handleRequest_invalid_host:
  "handleRequest new_URL ''out/test/media''
     \<lparr>url = Some ''/'', http_method = ''GET'', host = Some ''exa mple''\<rparr> new_ServerResponse triggered =
     (triggered, new_ServerResponse, Threw ''TypeError: Invalid URL'')"
  "handleRequest new_URL ''out/test/media'' (get_request ''//'') new_ServerResponse triggered =
     (triggered, new_ServerResponse, Threw ''TypeError: Invalid URL'')"
  by (simp_all add: handleRequest_def get_request_def parse_dot_segments)

text \<open>
  The path that the handler compares is the path of the parsed URL, with its dot segments
  resolved: a request for \<open>/./\<close> or \<open>/a/..\<close> is a request for \<open>/\<close>.
\<close>

lemma handleRequest_dot_segments:
  "handleRequest new_URL ''out/test/media'' (get_request ''/./?code=42'') new_ServerResponse triggered =
     (triggered, new_ServerResponse, Threw ''Missing state in redirect URL'')"
  "handleRequest new_URL ''out/test/media'' (get_request ''/a/..'') new_ServerResponse triggered =
     (triggered, new_ServerResponse, Threw ''Missing state in redirect URL'')"
  "handleRequest new_URL ''out/test/media'' (get_request ''/a/../favicon.ico'') new_ServerResponse
     triggered =
     (triggered, new_ServerResponse, SendingFile ''out/test/media'' ''favicon.ico'')"
  by (simp_all add: handleRequest_def get_request_def parse_dot_segments get_def)

text \<open>
  Claim C5, as amended.  Take a GET request whose URL and Host header are present and
  which the platform's URL constructor parses, against the base \<open>http://<Host>\<close>, to a URL of
  path \<open>/\<close>.  If its \<open>state\<close> parameter is missing or empty, or its state carries no non-empty
  \<open>nonce\<close>, or its \<open>code\<close> parameter is missing or empty, then \<open>handleRequest\<close> throws ("Missing
  state in redirect URL" in the first case, "Missing nonce or code in redirect URI"
  otherwise).  It does so without calling the code manager and without writing to the
  response: the state of the flow, with its pending waits, is unchanged.  This holds for
  whatever the constructor does.
\<close>

theorem handleRequest_missing_parameter_throws:
  assumes "url req = Some target" and "target \<noteq> []" and "host req = Some h" and "h \<noteq> []"
    and "http_method req = ''GET''"
    and "newURL target (''http://'' @ h) = Parsed u" and "pathname u = ''/''"
    and "falsy (get ''state'' (searchParams u)) \<or> falsy (state_nonce u) \<or>
         falsy (get ''code'' (searchParams u))"
  shows "handleRequest newURL serveRoot req res w =
           (w, res,
            Threw (if falsy (get ''state'' (searchParams u))
                   then ''Missing state in redirect URL''
                   else ''Missing nonce or code in redirect URI''))"
  using assms
  by (auto simp: handleRequest_def falsy_def state_nonce_def split: option.splits)

theorem handleRequest_missing_parameter_throws_witness:
  "handleRequest new_URL ''out/test/media'' (get_request ''/?state=nonce%3Dnonce'')
     new_ServerResponse triggered =
     (triggered, new_ServerResponse, Threw ''Missing nonce or code in redirect URI'')"
proof -
  let ?u = "\<lparr>pathname = ''/'', searchParams = [(''state'', ''nonce=nonce'')]\<rparr>"
  have f: "falsy (get ''code'' (searchParams ?u))" "\<not> falsy (get ''state'' (searchParams ?u))"
    by (simp_all add: falsy_def get_def)
  have "handleRequest new_URL ''out/test/media'' (get_request ''/?state=nonce%3Dnonce'')
          new_ServerResponse triggered =
        (triggered, new_ServerResponse,
         Threw (if falsy (get ''state'' (searchParams ?u))
                then ''Missing state in redirect URL''
                else ''Missing nonce or code in redirect URI''))"
    by (rule handleRequest_missing_parameter_throws
          [where h = "''127.0.0.1:1234''" and target = "''/?state=nonce%3Dnonce''"])
       (simp_all add: get_request_def parse_no_code falsy_def get_def)
  then show ?thesis using f by simp
qed

text \<open>
  The claim as stated fails: after the request without a \<open>state\<close> the wait of the flow is
  still registered and its promise still pending, so nothing has been surfaced to the
  caller of \<open>trigger\<close>; a well-formed request that follows still resolves the wait.
\<close>

theorem handleRequest_missing_state_counterexample:
  "handleRequest new_URL ''out/test/media'' (get_request ''/'') new_ServerResponse triggered =
     (triggered, new_ServerResponse, Threw ''Missing state in redirect URL'') \<and>
   waiters triggered = [(''nonce'', 0, 60000)] \<and> codes triggered 0 = Pending \<and>
   codes (fst (handleRequest new_URL ''out/test/media''
                 (get_request ''/?state=nonce%3Dnonce&code=42'')
                 new_ServerResponse triggered)) 0 = Settled (Resolved ''42'')"
  by (simp add: handleRequest_def get_request_def falsy_def parse_bare parse_callback parse_query
        get_values triggered_fields resolveCode_def)

subsection \<open>C6: the flow end to end\<close>

text \<open>
  Claim C6.  \<open>trigger\<close> is called with nonce "nonce" and scopes ["foo"] on a fresh flow.  It
  creates server 0 and awaits its start; the server is bound to \<open>port\<close> and the start promise
  resolves to it; \<open>trigger\<close> hands to \<open>openExternal\<close> a URL generated with
  \<open>redirect_uri = http://127.0.0.1:<port>\<close> and \<open>state = nonce=nonce\<close>; \<open>openExternal\<close> resolves.
  The request \<open>GET /?state=nonce%3Dnonce&code=42\<close> makes the handler resolve the code promise
  with "42" and start the redirect, and \<open>trigger\<close> is fulfilled with exactly the code "42" and
  the redirect URI that was put into the authorization URL.  When \<open>asExternalUri\<close> has
  resolved, the handler answers 302 with the Location
  \<open><ColabApiDomain>/vscode/auth-success?state=\<close> followed by the URI-component encoding of
  the external URI, and ends the response.
\<close>

theorem loopback_flow_end_to_end:
  "trigger test_options new_world = Some (triggered, 0, 0, Inr 0) \<and>
   promises (servers (bound port) 0) 0 = Settled (Resolved port) \<and>
   trigger_started 0 test_options (Resolved port) (bound port) =
     (browser_opened port, AwaitOpenExternal (''http://127.0.0.1:'' @ toString port)) \<and>
   opened (browser_opened port) =
     [\<lparr>redirect_uri = ''http://127.0.0.1:'' @ toString port, state = ''nonce=nonce'',
       scope = [''foo''], code_challenge = ''1 + 1 = ?''\<rparr>] \<and>
   trigger_opened 0 (''http://127.0.0.1:'' @ toString port) (Resolved True) (browser_opened port) =
     (browser_opened port, AwaitCode (''http://127.0.0.1:'' @ toString port)) \<and>
   handleRequest new_URL serveRoot (get_request ''/?state=nonce%3Dnonce&code=42'')
       new_ServerResponse (browser_opened port) =
     (resolveCode ''nonce'' ''42'' (browser_opened port), new_ServerResponse, Redirecting) \<and>
   codes (resolveCode ''nonce'' ''42'' (browser_opened port)) 0 = Settled (Resolved ''42'') \<and>
   trigger_code 0 (''http://127.0.0.1:'' @ toString port) (Resolved ''42'')
       (resolveCode ''nonce'' ''42'' (browser_opened port)) =
     (resolveCode ''nonce'' ''42'' (browser_opened port),
      Done (Fulfilled \<lparr>code = ''42'', redirectUri = ''http://127.0.0.1:'' @ toString port\<rparr>)) \<and>
   redirectSuccessfulAuth ColabApiDomain (Resolved external) new_ServerResponse
       (resolveCode ''nonce'' ''42'' (browser_opened port)) =
     (resolveCode ''nonce'' ''42'' (browser_opened port),
      \<lparr>headersSent = True, statusCode = Some 302,
       headers = [(''Location'',
                   ColabApiDomain @ ''/vscode/auth-success?state='' @ encodeURIComponent external)],
       body = None, endCalls = 1\<rparr>)"
proof -
  have a: "trigger_started 0 test_options (Resolved port) (bound port) =
     (browser_opened port, AwaitOpenExternal (''http://127.0.0.1:'' @ toString port))"
    by (simp add: browser_opened_def trigger_started_def Let_def)
  have b: "opened (browser_opened port) =
     [\<lparr>redirect_uri = ''http://127.0.0.1:'' @ toString port, state = ''nonce=nonce'',
       scope = [''foo''], code_challenge = ''1 + 1 = ?''\<rparr>]"
    by (simp add: browser_opened_def trigger_started_def Let_def bound_fields triggered_fields
          test_options_def)
  have c: "handleRequest new_URL serveRoot (get_request ''/?state=nonce%3Dnonce&code=42'')
       new_ServerResponse (browser_opened port) =
     (resolveCode ''nonce'' ''42'' (browser_opened port), new_ServerResponse, Redirecting)"
    by (simp add: handleRequest_def get_request_def falsy_def parse_callback parse_query get_values)
  have d: "redirectSuccessfulAuth ColabApiDomain (Resolved external) new_ServerResponse
       (resolveCode ''nonce'' ''42'' (browser_opened port)) =
     (resolveCode ''nonce'' ''42'' (browser_opened port),
      \<lparr>headersSent = True, statusCode = Some 302,
       headers = [(''Location'',
                   ColabApiDomain @ ''/vscode/auth-success?state='' @ encodeURIComponent external)],
       body = None, endCalls = 1\<rparr>)"
    by (simp add: redirectSuccessfulAuth_def new_ServerResponse_def writeHead_def end_response_def
          Let_def)
  show ?thesis
    using a b c d
    by (simp add: trigger_test bound_fields resolveCode_test trigger_opened_def trigger_code_def)
qed

theorem loopback_flow_end_to_end_witness:
  "trigger_code 0 ''http://127.0.0.1:1234'' (Resolved ''42'')
       (resolveCode ''nonce'' ''42'' (browser_opened 1234)) =
     (resolveCode ''nonce'' ''42'' (browser_opened 1234),
      Done (Fulfilled \<lparr>code = ''42'', redirectUri = ''http://127.0.0.1:1234''\<rparr>)) \<and>
   opened (browser_opened 1234) =
     [\<lparr>redirect_uri = ''http://127.0.0.1:1234'', state = ''nonce=nonce'',
       scope = [''foo''], code_challenge = ''1 + 1 = ?''\<rparr>] \<and>
   snd (redirectSuccessfulAuth ''https://colab.example''
          (Resolved ''vscode://google.colab/auth-success?windowId=1'') new_ServerResponse
          (resolveCode ''nonce'' ''42'' (browser_opened 1234))) =
     \<lparr>headersSent = True, statusCode = Some 302,
      headers = [(''Location'',
        ''https://colab.example/vscode/auth-success?state=vscode%3A%2F%2Fgoogle.colab%2Fauth-success%3FwindowId%3D1'')],
      body = None, endCalls = 1\<rparr>"
  using loopback_flow_end_to_end
    [of 1234 "''out/test/media''" "''https://colab.example''"
        "''vscode://google.colab/auth-success?windowId=1''"]
  by (simp add: loopback_flow_test_values)

subsection \<open>C9: a URI invocation with a missing parameter\<close>

text \<open>
  Claim C9.  An invocation whose query has no non-empty \<open>nonce\<close>, or no non-empty \<open>code\<close>, does
  not throw and leaves the state, with its pending waits, as it was.  So a wait that was
  registered before still resolves on a later invocation carrying its nonce and a
  non-empty code, and is still rejected with the timeout error once its deadline is
  reached.
\<close>

theorem handleUri_ignores_incomplete:
  assumes "falsy (get ''nonce'' (URLSearchParams query)) \<or> falsy (get ''code'' (URLSearchParams query))"
  shows "handleUri query w = Inr w \<and>
         (\<forall>n p d. map_of (waiters w) n = Some (p, d) \<longrightarrow>
            (\<forall>q c. get ''nonce'' (URLSearchParams q) = Some n \<and> n \<noteq> [] \<and>
                    get ''code'' (URLSearchParams q) = Some c \<and> c \<noteq> [] \<longrightarrow>
               (\<exists>w'. handleUri q w = Inr w' \<and> codes w' p = Settled (Resolved c))) \<and>
            (\<forall>ms. d \<le> now w + ms \<longrightarrow>
               codes (advance ms w) p = Settled (Rejected timeout_error)))"
proof -
  from assms have "handleUri query w = Inr w"
    by (auto simp: handleUri_def falsy_def Let_def split: option.splits)
  moreover have "\<And>q n c. get ''nonce'' (URLSearchParams q) = Some n \<Longrightarrow> n \<noteq> [] \<Longrightarrow>
      get ''code'' (URLSearchParams q) = Some c \<Longrightarrow> c \<noteq> [] \<Longrightarrow>
      handleUri q w = Inr (resolveCode n c w)"
    by (simp add: handleUri_def Let_def)
  ultimately show ?thesis
    by (auto simp: resolveCode_resolves dest!: map_of_SomeD intro: advance_rejects)
qed

theorem handleUri_ignores_incomplete_witness:
  "handleUri ''windowId=1'' waiting = Inr waiting \<and>
   handleUri ''nonce=nonce&windowId=1&code='' waiting = Inr waiting \<and>
   waiters waiting = [(''nonce'', 0, 60000)] \<and>
   (\<exists>w'. handleUri ''nonce=nonce&windowId=1&code=42'' waiting = Inr w' \<and>
      codes w' 0 = Settled (Resolved ''42'')) \<and>
   codes (advance 60000 waiting) 0 = Settled (Rejected timeout_error)"
proof -
  have a: "falsy (get ''nonce'' (URLSearchParams ''windowId=1'')) \<or>
           falsy (get ''code'' (URLSearchParams ''windowId=1''))"
    by (simp add: parse_proxied falsy_def)
  have b: "falsy (get ''nonce'' (URLSearchParams ''nonce=nonce&windowId=1&code='')) \<or>
           falsy (get ''code'' (URLSearchParams ''nonce=nonce&windowId=1&code=''))"
    by (simp add: parse_proxied falsy_def)
  have m: "map_of (waiters waiting) ''nonce'' = Some (0, 60000)"
    by (simp add: waiting_fields)
  note T = handleUri_ignores_incomplete [OF a, of waiting]
  from T have i: "handleUri ''windowId=1'' waiting = Inr waiting" by (rule conjunct1)
  from T m have
    r0: "\<forall>q c. get ''nonce'' (URLSearchParams q) = Some ''nonce'' \<and> ''nonce'' \<noteq> [] \<and>
               get ''code'' (URLSearchParams q) = Some c \<and> c \<noteq> [] \<longrightarrow>
            (\<exists>w'. handleUri q waiting = Inr w' \<and> codes w' 0 = Settled (Resolved c))" and
    t0: "\<forall>ms. 60000 \<le> now waiting + ms \<longrightarrow>
            codes (advance ms waiting) 0 = Settled (Rejected timeout_error)"
    by blast+
  from r0 have r: "\<exists>w'. handleUri ''nonce=nonce&windowId=1&code=42'' waiting = Inr w' \<and>
              codes w' 0 = Settled (Resolved ''42'')"
    by (simp add: parse_proxied)
  from t0 have t: "codes (advance 60000 waiting) 0 = Settled (Rejected timeout_error)"
    by (simp add: waiting_fields)
  from handleUri_ignores_incomplete [OF b, of waiting]
  have j: "handleUri ''nonce=nonce&windowId=1&code='' waiting = Inr waiting" by (rule conjunct1)
  show ?thesis using r t i j by (simp add: waiting_fields)
qed

end
